theory Spec2Isabelle
  imports Complex_Main "HOL-Library.AList"
begin

section \<open>JSON values and dictionaries\<close>

text \<open>
  The values that occur in token headers, token claims and key descriptors are JSON
  strings and JSON numbers. Strings are \<open>char list\<close>; a \<open>char\<close> stands for a code
  point below 256. A Python \<open>dict\<close> is an association list in insertion order, read with
  \<open>map_of\<close> and written with \<open>AList.update\<close> (which keeps the position of a key that is
  already there and appends a new one, as \<open>dict.update\<close> does).
\<close>

datatype jval = JStr string | JInt int

type_synonym jdict = "(string \<times> jval) list"

section \<open>The key material (lines 7-42 of main.py)\<close>

text \<open>
  The RSA key pair is symbolic: it is identified by its modulus, which the private and
  the public half share. Holding \<open>PrivateKey n\<close> is what it takes to make a signature
  that verifies under \<open>PublicKey n\<close>. The optional members \<open>kid\<close>, \<open>use\<close> and \<open>alg\<close> of
  the JWK are kept as they are loaded.
\<close>

record jwk =
  jwk_n :: nat
  jwk_kid :: "string option"
  jwk_use :: "string option"
  jwk_alg :: "string option"

datatype private_key = PrivateKey nat
datatype public_key = PublicKey nat

text \<open>\<open>JWK.export_public()\<close> followed by \<open>json.loads\<close>: the public members of the key.\<close>

definition export_public :: "jwk \<Rightarrow> jdict" where
  "export_public k =
     [(''kty'', JStr ''RSA''), (''n'', JInt (int (jwk_n k)))]
     @ (case jwk_kid k of None \<Rightarrow> [] | Some v \<Rightarrow> [(''kid'', JStr v)])
     @ (case jwk_use k of None \<Rightarrow> [] | Some v \<Rightarrow> [(''use'', JStr v)])
     @ (case jwk_alg k of None \<Rightarrow> [] | Some v \<Rightarrow> [(''alg'', JStr v)])"

text \<open>
  The module-level state: \<open>PRIV_JWK\<close> and \<open>KID\<close> are assigned once, when the module is
  loaded, and every request handler reads them. \<open>load_module\<close> is lines 19-22:
  \<^verbatim>\<open>
  PRIV_JWK = jwk.JWK.from_json(_load_private_jwk_json())
  if "kid" not in json.loads(PRIV_JWK.export_public()):
      PRIV_JWK["kid"] = uuid.uuid4().hex
  KID = json.loads(PRIV_JWK.export_public())["kid"]
  \<close>
  The key that \<open>from_json\<close> parsed and the value \<open>uuid.uuid4().hex\<close> would return are
  the inputs. \<open>export_public\<close> gives a \<open>kid\<close> as a string, so the last case of
  \<open>load_module\<close> does not occur.
\<close>

record process =
  PRIV_JWK :: jwk
  KID :: string

definition load_module :: "jwk \<Rightarrow> string \<Rightarrow> process" where
  "load_module loaded fresh_hex =
     (case map_of (export_public loaded) ''kid'' of
        None \<Rightarrow> \<lparr>PRIV_JWK = loaded\<lparr>jwk_kid := Some fresh_hex\<rparr>, KID = fresh_hex\<rparr>
      | Some (JStr v) \<Rightarrow> \<lparr>PRIV_JWK = loaded, KID = v\<rparr>
      | Some (JInt i) \<Rightarrow> \<lparr>PRIV_JWK = loaded, KID = []\<rparr>)"

definition ALG :: string where "ALG = ''PS512''"
definition ISSUER :: string where "ISSUER = ''JWT API Simulation''"
definition AUDIENCE :: string where "AUDIENCE = ''JWT API Simulation''"
definition LEEWAY_SECONDS :: int where "LEEWAY_SECONDS = 2"
definition COOKIE_NAME :: string where "COOKIE_NAME = ''session_jwt''"
definition COOKIE_EXP :: string where "COOKIE_EXP = ''jwt_exp''"

text \<open>The list that \<open>api_ping\<close> passes as \<open>options={"require": [...]}\<close> (line 476).\<close>

definition REQUIRED :: "string list" where
  "REQUIRED = [''exp'', ''iat'', ''nbf'', ''iss'', ''aud'', ''sub'']"

definition private_pem :: "process \<Rightarrow> private_key" where
  "private_pem p = PrivateKey (jwk_n (PRIV_JWK p))"

definition public_pem :: "process \<Rightarrow> public_key" where
  "public_pem p = PublicKey (jwk_n (PRIV_JWK p))"

text \<open>\<open>dict.setdefault\<close>: the value is stored only when the key is absent.\<close>

definition setdefault :: "jdict \<Rightarrow> string \<Rightarrow> jval \<Rightarrow> jdict" where
  "setdefault d k v = (case map_of d k of None \<Rightarrow> d @ [(k, v)] | Some _ \<Rightarrow> d)"

definition public_jwk_obj :: "process \<Rightarrow> jdict" where
  "public_jwk_obj p =
     (let pub = export_public (PRIV_JWK p);
          pub = setdefault pub ''use'' (JStr ''sig'');
          pub = setdefault pub ''alg'' (JStr ALG)
      in pub)"

section \<open>Tokens and the PyJWT calls the program makes\<close>

text \<open>
  The program builds and reads tokens only through the PyJWT library
  (\<open>jwt.encode\<close>, \<open>jwt.get_unverified_header\<close>, \<open>jwt.decode\<close>). The library is modelled at
  the level of what its parser recovers from the compact serialisation: a token is
  either the three parts of a compact JWS (header object, payload, signature), or a text
  that the parser rejects (\<open>Opaque\<close>; this includes the empty string). The payload is the
  claims object, or bytes that are not the JSON text of an object (\<open>Blob\<close>).

  Signatures are symbolic. \<open>RsaSig alg n h b\<close> is a signature made under algorithm \<open>alg\<close>
  with the private key of modulus \<open>n\<close> over the signing input (header \<open>h\<close>, payload \<open>b\<close>);
  \<open>Noise\<close> is any other byte string in the signature segment.
\<close>

datatype body = Claims jdict | Blob string

datatype signature = RsaSig string nat jdict body | Noise string

datatype token = Jws jdict body signature | Opaque string

text \<open>
  The exception classes of PyJWT that the calls can raise. All of them are subclasses
  of \<open>InvalidTokenError\<close>; \<open>InvalidTokenError\<close> itself is raised for a \<open>kid\<close> header
  that is not a string. \<open>MissingRequiredClaimError\<close> carries the name of the claim.
  The message texts of the library are not modelled: a formatted message keeps the
  exception it formats (see \<open>JF\<close> below).
\<close>

datatype jwt_error =
    DecodeError
  | InvalidSignatureError
  | InvalidAlgorithmError
  | MissingRequiredClaimError string
  | InvalidIssuedAtError
  | ImmatureSignatureError
  | ExpiredSignatureError
  | InvalidIssuerError
  | InvalidAudienceError
  | InvalidTokenError

text \<open>Sequencing of calls that may raise: the first exception ends the computation.\<close>

definition and_then :: "'e + 'a \<Rightarrow> ('a \<Rightarrow> 'e + 'b) \<Rightarrow> 'e + 'b" where
  "and_then r f = (case r of Inl e \<Rightarrow> Inl e | Inr x \<Rightarrow> f x)"

definition raise_if :: "bool \<Rightarrow> 'e \<Rightarrow> 'e + unit" where
  "raise_if c e = (if c then Inl e else Inr ())"

text \<open>
  \<open>jwt.encode(claims, key, algorithm, headers)\<close>: the header starts as
  \<open>{"typ": "JWT", "alg": algorithm}\<close> and is updated with the caller's headers; the
  signature is made over the header and the claims.
\<close>

definition jwt_encode :: "jdict \<Rightarrow> private_key \<Rightarrow> string \<Rightarrow> jdict \<Rightarrow> token" where
  "jwt_encode claims key algorithm headers =
     (case key of PrivateKey n \<Rightarrow>
        let header = fold (\<lambda>(k, v) h. AList.update k v h) headers
                       [(''typ'', JStr ''JWT''), (''alg'', JStr algorithm)]
        in Jws header (Claims claims) (RsaSig algorithm n header (Claims claims)))"

text \<open>The library's parser (\<open>_load\<close>): the three parts, or \<open>DecodeError\<close>.\<close>

definition load_token :: "token \<Rightarrow> jwt_error + (jdict \<times> body \<times> signature)" where
  "load_token t = (case t of Opaque s \<Rightarrow> Inl DecodeError | Jws h b s \<Rightarrow> Inr (h, b, s))"

text \<open>
  \<open>jwt.get_unverified_header(token)\<close>: parses the token and returns the header; a
  \<open>kid\<close> header that is not a string raises \<open>InvalidTokenError\<close>.
\<close>

definition get_unverified_header :: "token \<Rightarrow> jwt_error + jdict" where
  "get_unverified_header t =
     and_then (load_token t) (\<lambda>(h, b, s).
       case map_of h ''kid'' of
         Some (JInt i) \<Rightarrow> Inl InvalidTokenError
       | _ \<Rightarrow> Inr h)"

text \<open>
  Verification of a signature with an RSA public key: it succeeds exactly for an RSA
  algorithm and a signature made under that algorithm, by the matching private key, over
  this very signing input.
\<close>

definition rsa_algorithms :: "string list" where
  "rsa_algorithms = [''RS256'', ''RS384'', ''RS512'', ''PS256'', ''PS384'', ''PS512'']"

definition supported_algorithms :: "string list" where
  "supported_algorithms =
     [''none'', ''HS256'', ''HS384'', ''HS512'', ''ES256'', ''ES256K'', ''ES384'', ''ES521'',
      ''ES512'', ''EdDSA''] @ rsa_algorithms"

definition alg_verify :: "string \<Rightarrow> public_key \<Rightarrow> jdict \<Rightarrow> body \<Rightarrow> signature \<Rightarrow> bool" where
  "alg_verify alg key h b s =
     (case key of PublicKey n \<Rightarrow> alg \<in> set rsa_algorithms \<and> s = RsaSig alg n h b)"

text \<open>
  The signature step of \<open>jwt.decode\<close>: the \<open>alg\<close> header must be one of the
  caller's \<open>algorithms\<close>, it must name an algorithm the library has, and the signature must
  verify under it.
\<close>

definition verify_signature ::
  "jdict \<Rightarrow> body \<Rightarrow> signature \<Rightarrow> public_key \<Rightarrow> string list \<Rightarrow> jwt_error + unit" where
  "verify_signature h b s key algorithms =
     (case map_of h ''alg'' of
        Some (JStr alg) \<Rightarrow>
          if alg = [] \<or> alg \<notin> set algorithms then Inl InvalidAlgorithmError
          else if alg \<notin> set supported_algorithms then Inl InvalidAlgorithmError
          else if \<not> alg_verify alg key h b s then Inl InvalidSignatureError
          else Inr ()
      | _ \<Rightarrow> Inl InvalidAlgorithmError)"

text \<open>The payload must be the JSON text of an object.\<close>

definition decode_payload :: "body \<Rightarrow> jwt_error + jdict" where
  "decode_payload b = (case b of Blob s \<Rightarrow> Inl DecodeError | Claims c \<Rightarrow> Inr c)"

text \<open>
  The claim checks of \<open>jwt.decode\<close>, in the library's order: the required claims (in
  the order of the \<open>require\<close> list), then \<open>iat\<close>, \<open>nbf\<close>, \<open>exp\<close>, then the issuer, then the
  audience. The clock is a real number of seconds (\<open>datetime.now().timestamp()\<close>). A
  time claim that is not a JSON number is rejected (a string that Python's \<open>int()\<close> would
  read as a number is not modelled: every string counts as not a number).
\<close>

fun validate_required_claims :: "jdict \<Rightarrow> string list \<Rightarrow> jwt_error + unit" where
  "validate_required_claims payload [] = Inr ()"
| "validate_required_claims payload (c # cs) =
     (if map_of payload c = None then Inl (MissingRequiredClaimError c)
      else validate_required_claims payload cs)"

definition validate_iat :: "jdict \<Rightarrow> real \<Rightarrow> int \<Rightarrow> jwt_error + unit" where
  "validate_iat payload now leeway =
     (case map_of payload ''iat'' of
        None \<Rightarrow> Inr ()
      | Some (JStr s) \<Rightarrow> Inl InvalidIssuedAtError
      | Some (JInt iat) \<Rightarrow> raise_if (real_of_int iat > now + real_of_int leeway) ImmatureSignatureError)"

definition validate_nbf :: "jdict \<Rightarrow> real \<Rightarrow> int \<Rightarrow> jwt_error + unit" where
  "validate_nbf payload now leeway =
     (case map_of payload ''nbf'' of
        None \<Rightarrow> Inr ()
      | Some (JStr s) \<Rightarrow> Inl DecodeError
      | Some (JInt nbf) \<Rightarrow> raise_if (real_of_int nbf > now + real_of_int leeway) ImmatureSignatureError)"

definition validate_exp :: "jdict \<Rightarrow> real \<Rightarrow> int \<Rightarrow> jwt_error + unit" where
  "validate_exp payload now leeway =
     (case map_of payload ''exp'' of
        None \<Rightarrow> Inr ()
      | Some (JStr s) \<Rightarrow> Inl DecodeError
      | Some (JInt exp') \<Rightarrow> raise_if (real_of_int exp' \<le> now - real_of_int leeway) ExpiredSignatureError)"

definition validate_iss :: "jdict \<Rightarrow> string \<Rightarrow> jwt_error + unit" where
  "validate_iss payload issuer =
     (case map_of payload ''iss'' of
        None \<Rightarrow> Inl (MissingRequiredClaimError ''iss'')
      | Some v \<Rightarrow> raise_if (v \<noteq> JStr issuer) InvalidIssuerError)"

text \<open>
  The audience claim counts as missing when it is absent or falsy (the empty string,
  the number 0); a claim that is not a string is an invalid audience.
\<close>

definition validate_aud :: "jdict \<Rightarrow> string \<Rightarrow> jwt_error + unit" where
  "validate_aud payload audience =
     (case map_of payload ''aud'' of
        None \<Rightarrow> Inl (MissingRequiredClaimError ''aud'')
      | Some (JStr a) \<Rightarrow>
          if a = [] then Inl (MissingRequiredClaimError ''aud'')
          else raise_if (a \<noteq> audience) InvalidAudienceError
      | Some (JInt i) \<Rightarrow>
          if i = 0 then Inl (MissingRequiredClaimError ''aud'')
          else Inl InvalidAudienceError)"

definition validate_claims ::
  "jdict \<Rightarrow> string list \<Rightarrow> string \<Rightarrow> string \<Rightarrow> int \<Rightarrow> real \<Rightarrow> jwt_error + unit" where
  "validate_claims payload require audience issuer leeway now =
     and_then (validate_required_claims payload require) (\<lambda>_.
     and_then (validate_iat payload now leeway) (\<lambda>_.
     and_then (validate_nbf payload now leeway) (\<lambda>_.
     and_then (validate_exp payload now leeway) (\<lambda>_.
     and_then (validate_iss payload issuer) (\<lambda>_.
     validate_aud payload audience)))))"

text \<open>
  \<open>jwt.decode(token, key, algorithms, audience, issuer, options={"require": ...},
  leeway)\<close>, read at clock value \<open>now\<close>: parse, verify the signature, decode the payload,
  check the claims, return the claims.
\<close>

definition jwt_decode ::
  "token \<Rightarrow> public_key \<Rightarrow> string list \<Rightarrow> string \<Rightarrow> string \<Rightarrow> string list \<Rightarrow> int \<Rightarrow> real
     \<Rightarrow> jwt_error + jdict" where
  "jwt_decode t key algorithms audience issuer require leeway now =
     and_then (load_token t) (\<lambda>(h, b, s).
     and_then (verify_signature h b s key algorithms) (\<lambda>_.
     and_then (decode_payload b) (\<lambda>payload.
     and_then (validate_claims payload require audience issuer leeway now) (\<lambda>_.
     Inr payload))))"

section \<open>Issuing (lines 402-418)\<close>

text \<open>
  \<open>int(x)\<close> on a float truncates towards zero. The clock value \<open>now\<close> and the value
  \<open>jti_hex\<close> that \<open>uuid.uuid4().hex\<close> returns are inputs of \<open>issue_jwt_for_uid\<close>.
\<close>

definition py_int :: "real \<Rightarrow> int" where
  "py_int x = (if 0 \<le> x then \<lfloor>x\<rfloor> else \<lceil>x\<rceil>)"

definition issue_jwt_for_uid :: "process \<Rightarrow> real \<Rightarrow> string \<Rightarrow> string \<Rightarrow> token \<times> int" where
  "issue_jwt_for_uid p now jti_hex uid =
     (let iat = py_int now;
          nbf = iat - LEEWAY_SECONDS;
          exp' = iat + 30;
          claims = [(''iss'', JStr ISSUER),
                    (''aud'', JStr AUDIENCE),
                    (''sub'', JStr uid),
                    (''iat'', JInt iat),
                    (''nbf'', JInt nbf),
                    (''exp'', JInt exp'),
                    (''jti'', JStr jti_hex)];
          headers = [(''alg'', JStr ALG), (''kid'', JStr (KID p)), (''typ'', JStr ''JWT'')];
          token = jwt_encode claims (private_pem p) ALG headers
      in (token, exp'))"

text \<open>The \<open>claims\<close> dictionary of \<open>issue_jwt_for_uid\<close>, by itself.\<close>

definition issue_claims :: "real \<Rightarrow> string \<Rightarrow> string \<Rightarrow> jdict" where
  "issue_claims now jti_hex uid =
     [(''iss'', JStr ISSUER),
      (''aud'', JStr AUDIENCE),
      (''sub'', JStr uid),
      (''iat'', JInt (py_int now)),
      (''nbf'', JInt (py_int now - LEEWAY_SECONDS)),
      (''exp'', JInt (py_int now + 30)),
      (''jti'', JStr jti_hex)]"

text \<open>The claims a token carries, when it carries any.\<close>

definition claims_of :: "token \<Rightarrow> jdict option" where
  "claims_of t = (case t of Jws h (Claims c) s \<Rightarrow> Some c | _ \<Rightarrow> None)"

definition header_of :: "token \<Rightarrow> jdict option" where
  "header_of t = (case t of Jws h b s \<Rightarrow> Some h | _ \<Rightarrow> None)"

section \<open>Requests, responses and cookies\<close>

text \<open>
  A request carries its form fields and its cookies. A cookie value is a text; the
  text of the session cookie is a token, so cookie values have type \<open>token\<close>, with
  \<open>Opaque s\<close> for a text \<open>s\<close> that is not a compact JWS.

  A JSON body is a \<open>json\<close> value; \<open>JF prefix e\<close> is the string an f-string
  \<open>f"prefix{e}"\<close> builds from the exception \<open>e\<close>.
\<close>

record request =
  form :: "string \<rightharpoonup> string"
  cookies :: "string \<rightharpoonup> token"

datatype json =
    JS string
  | JN int
  | JB bool
  | JO "(string \<times> json) list"
  | JA "json list"
  | JF string jwt_error

definition of_jval :: "jval \<Rightarrow> json" where
  "of_jval v = (case v of JStr s \<Rightarrow> JS s | JInt i \<Rightarrow> JN i)"

definition of_jdict :: "jdict \<Rightarrow> json" where
  "of_jdict d = JO (map (\<lambda>(k, v). (k, of_jval v)) d)"

datatype content = Text string | Json json | Redirect string

text \<open>
  \<open>SetCookie name value max_age httponly secure samesite path\<close> and
  \<open>DeleteCookie name path\<close> are the cookie directives of a response.
\<close>

datatype directive =
    SetCookie string token int bool bool string string
  | DeleteCookie string string

record response =
  status :: nat
  content :: content
  directives :: "directive list"
  headers :: "(string \<times> string) list"

definition jsonify :: "json \<Rightarrow> response" where
  "jsonify j = \<lparr>status = 200, content = Json j, directives = [], headers = []\<rparr>"

definition with_status :: "response \<Rightarrow> nat \<Rightarrow> response" where
  "with_status r code = r\<lparr>status := code\<rparr>"

definition redirect :: "string \<Rightarrow> response" where
  "redirect url = \<lparr>status = 302, content = Redirect url, directives = [], headers = []\<rparr>"

text \<open>\<open>str(n)\<close> for an integer: its decimal digits, with a minus sign when negative.\<close>

fun str_nat :: "nat \<Rightarrow> string" where
  "str_nat n =
     (if n < 10 then [''0123456789'' ! n]
      else str_nat (n div 10) @ [''0123456789'' ! (n mod 10)])"

declare str_nat.simps [simp del]

definition str_int :: "int \<Rightarrow> string" where
  "str_int i = (if i < 0 then CHR ''-'' # str_nat (nat (- i)) else str_nat (nat i))"

text \<open>
  \<open>str.strip()\<close>: leading and trailing whitespace is removed. The whitespace
  characters below code point 256 are U+0009 to U+000D, U+001C to U+0020, U+0085 and
  U+00A0.
\<close>

definition is_space :: "char \<Rightarrow> bool" where
  "is_space c \<longleftrightarrow> c \<in> set [CHR 0x09, CHR 0x0A, CHR 0x0B, CHR 0x0C, CHR 0x0D,
                           CHR 0x1C, CHR 0x1D, CHR 0x1E, CHR 0x1F, CHR 0x20,
                           CHR 0x85, CHR 0xA0]"

definition strip :: "string \<Rightarrow> string" where
  "strip s = rev (dropWhile is_space (rev (dropWhile is_space s)))"

section \<open>The session cookies (lines 420-435)\<close>

definition set_session :: "response \<Rightarrow> token \<Rightarrow> int \<Rightarrow> response" where
  "set_session resp token exp' =
     resp\<lparr>directives := directives resp @
       [SetCookie COOKIE_NAME token 32 True False ''Lax'' ''/'',
        SetCookie COOKIE_EXP (Opaque (str_int exp')) 32 False False ''Lax'' ''/demo'']\<rparr>"

definition clear_session :: "response \<Rightarrow> response" where
  "clear_session resp =
     resp\<lparr>directives := directives resp @
       [DeleteCookie COOKIE_NAME ''/'', DeleteCookie COOKIE_EXP ''/demo'']\<rparr>"

section \<open>The routes (lines 441-505)\<close>

text \<open>
  \<open>POST /issue\<close>. The clock value and the fresh token id that \<open>issue_jwt_for_uid\<close>
  draws are inputs.
\<close>

definition issue :: "process \<Rightarrow> real \<Rightarrow> string \<Rightarrow> request \<Rightarrow> response" where
  "issue p now jti_hex req =
     (let uid = strip (case form req ''uid'' of None \<Rightarrow> [] | Some v \<Rightarrow> v)
      in if uid = [] then
           \<lparr>status = 400, content = Text ''UID is required'', directives = [], headers = []\<rparr>
         else
           (case issue_jwt_for_uid p now jti_hex uid of (token, exp') \<Rightarrow>
              set_session (redirect ''/demo'') token exp'))"

text \<open>
  \<open>GET /api/ping\<close>. \<open>not token\<close> holds for an absent cookie and for the empty text.
  The clock is read twice: by \<open>jwt.decode\<close> (\<open>now\<close>) and by \<open>time.time()\<close> for the
  reply (\<open>now_reply\<close>). The handlers are tried in the order of the source; the last one,
  \<open>except jwt.InvalidTokenError\<close>, takes every remaining exception of \<open>jwt_error\<close>.
\<close>

definition api_ping :: "process \<Rightarrow> real \<Rightarrow> real \<Rightarrow> request \<Rightarrow> response" where
  "api_ping p now now_reply req =
     (case cookies req COOKIE_NAME of
        None \<Rightarrow>
          with_status (jsonify (JO [(''ok'', JB False), (''error'', JS ''Missing JWT (Cookie)'')])) 401
      | Some token \<Rightarrow>
          if token = Opaque [] then
            with_status (jsonify (JO [(''ok'', JB False), (''error'', JS ''Missing JWT (Cookie)'')])) 401
          else
            (case get_unverified_header token of
               Inl e \<Rightarrow>
                 with_status (jsonify (JO [(''ok'', JB False),
                                           (''error'', JF ''Cannot read header: '' e)])) 400
             | Inr header \<Rightarrow>
                 (case jwt_decode token (public_pem p) [ALG] AUDIENCE ISSUER REQUIRED
                         LEEWAY_SECONDS now of
                    Inr claims \<Rightarrow>
                      jsonify (JO [(''ok'', JB True),
                                   (''message'', JS ''Validation successful''),
                                   (''now'', JN (py_int now_reply)),
                                   (''header'', of_jdict header),
                                   (''claims'', of_jdict claims)])
                  | Inl ExpiredSignatureError \<Rightarrow>
                      with_status (jsonify (JO [(''ok'', JB False), (''error'', JS ''Token expired'')])) 401
                  | Inl InvalidAudienceError \<Rightarrow>
                      with_status (jsonify (JO [(''ok'', JB False), (''error'', JS ''aud mismatch'')])) 401
                  | Inl InvalidIssuerError \<Rightarrow>
                      with_status (jsonify (JO [(''ok'', JB False), (''error'', JS ''iss mismatch'')])) 401
                  | Inl e \<Rightarrow>
                      with_status (jsonify (JO [(''ok'', JB False),
                                                (''error'', JF ''Invalid Token: '' e)])) 401)))"

text \<open>\<open>GET /reset\<close> and \<open>GET /.well-known/jwks.json\<close>.\<close>

definition reset :: "response" where
  "reset = clear_session (redirect ''/'')"

definition jwks :: "process \<Rightarrow> response" where
  "jwks p =
     (let resp = jsonify (JO [(''keys'', JA [of_jdict (public_jwk_obj p)])])
      in resp\<lparr>headers := AList.update ''Cache-Control'' ''public, max-age=300'' (headers resp)\<rparr>)"

section \<open>Reading responses\<close>

text \<open>
  The token that a response stores in the session cookie: the value of its first
  \<open>SetCookie\<close> directive for \<open>COOKIE_NAME\<close>.
\<close>

definition session_token :: "response \<Rightarrow> token option" where
  "session_token r =
     (case filter (\<lambda>d. case d of SetCookie n v a h s ss pa \<Rightarrow> n = COOKIE_NAME
                               | DeleteCookie n pa \<Rightarrow> False) (directives r) of
        SetCookie n v a h s ss pa # _ \<Rightarrow> Some v
      | _ \<Rightarrow> None)"

text \<open>The response \<open>jsonify({"ok": False, "error": err}), code\<close>.\<close>

definition failure :: "nat \<Rightarrow> json \<Rightarrow> response" where
  "failure code err =
     \<lparr>status = code, content = Json (JO [(''ok'', JB False), (''error'', err)]),
      directives = [], headers = []\<rparr>"

text \<open>The response of a successful \<open>GET /api/ping\<close>.\<close>

definition success :: "int \<Rightarrow> jdict \<Rightarrow> jdict \<Rightarrow> response" where
  "success t header claims =
     \<lparr>status = 200,
      content = Json (JO [(''ok'', JB True),
                          (''message'', JS ''Validation successful''),
                          (''now'', JN t),
                          (''header'', of_jdict header),
                          (''claims'', of_jdict claims)]),
      directives = [], headers = []\<rparr>"

section \<open>The steps of a verification\<close>











section \<open>Auxiliary facts\<close>

lemma strip_all_space: "\<forall>c\<in>set v. is_space c \<Longrightarrow> strip v = []"
  by (auto simp: strip_def dest: set_dropWhileD)

lemma strip_Nil: "strip [] = []"
  by (simp add: strip_def)

lemma export_public_kid: "map_of (export_public k) ''kid'' = map_option JStr (jwk_kid k)"
  by (simp add: export_public_def split: option.splits)

lemma KID_load_module:
  "KID (load_module key fresh) = (case jwk_kid key of None \<Rightarrow> fresh | Some k \<Rightarrow> k)"
  by (simp add: load_module_def export_public_kid split: option.splits)

lemma jwk_kid_load_module:
  "jwk_kid (PRIV_JWK (load_module key fresh)) = Some (KID (load_module key fresh))"
  by (simp add: load_module_def export_public_kid split: option.splits)

lemma map_of_setdefault_other:
  "k' \<noteq> k \<Longrightarrow> map_of (setdefault d k v) k' = map_of d k'"
  by (simp add: setdefault_def map_add_def split: option.splits)

lemma public_jwk_obj_kid:
  "map_of (public_jwk_obj p) ''kid'' = map_option JStr (jwk_kid (PRIV_JWK p))"
  by (simp add: public_jwk_obj_def Let_def map_of_setdefault_other export_public_kid)

lemma issued_header_kid:
  "\<exists>h. header_of (fst (issue_jwt_for_uid p now jti uid)) = Some h
       \<and> map_of h ''kid'' = Some (JStr (KID p))"
  by (simp add: issue_jwt_for_uid_def jwt_encode_def private_pem_def header_of_def Let_def)

lemma issue_jwt_for_uid_claims:
  "issue_jwt_for_uid p now jti uid =
     (jwt_encode (issue_claims now jti uid) (private_pem p) ALG
        [(''alg'', JStr ALG), (''kid'', JStr (KID p)), (''typ'', JStr ''JWT'')],
      py_int now + 30)"
  by (simp add: issue_jwt_for_uid_def issue_claims_def Let_def)

lemma py_int_bounds: "x - 1 < real_of_int (py_int x) \<and> real_of_int (py_int x) < x + 1"
  unfolding py_int_def by (simp; linarith)

lemma get_unverified_header_Jws:
  "get_unverified_header (Jws h b s) =
     (case map_of h ''kid'' of Some (JInt i) \<Rightarrow> Inl InvalidTokenError | _ \<Rightarrow> Inr h)"
  by (simp add: get_unverified_header_def load_token_def and_then_def)

lemma jwt_decode_Jws:
  "jwt_decode (Jws h b s) key algs aud iss req lw now =
     and_then (verify_signature h b s key algs) (\<lambda>_.
     and_then (decode_payload b) (\<lambda>payload.
     and_then (validate_claims payload req aud iss lw now) (\<lambda>_. Inr payload)))"
  by (simp add: jwt_decode_def load_token_def and_then_def)

lemma api_ping_None:
  "cookies req COOKIE_NAME = None \<Longrightarrow>
   api_ping p now nr req = failure 401 (JS ''Missing JWT (Cookie)'')"
  by (simp add: api_ping_def failure_def with_status_def jsonify_def)

lemma api_ping_empty:
  "cookies req COOKIE_NAME = Some (Opaque []) \<Longrightarrow>
   api_ping p now nr req = failure 401 (JS ''Missing JWT (Cookie)'')"
  by (simp add: api_ping_def failure_def with_status_def jsonify_def)

lemma api_ping_header:
  "cookies req COOKIE_NAME = Some tok \<Longrightarrow> tok \<noteq> Opaque [] \<Longrightarrow>
   get_unverified_header tok = Inl e \<Longrightarrow>
   api_ping p now nr req = failure 400 (JF ''Cannot read header: '' e)"
  by (simp add: api_ping_def failure_def with_status_def jsonify_def)

lemma api_ping_decode_ok:
  "cookies req COOKIE_NAME = Some tok \<Longrightarrow> tok \<noteq> Opaque [] \<Longrightarrow>
   get_unverified_header tok = Inr h \<Longrightarrow>
   jwt_decode tok (public_pem p) [ALG] AUDIENCE ISSUER REQUIRED LEEWAY_SECONDS now = Inr c \<Longrightarrow>
   api_ping p now nr req = success (py_int nr) h c"
  by (simp add: api_ping_def success_def jsonify_def)

lemma api_ping_decode_fail:
  "cookies req COOKIE_NAME = Some tok \<Longrightarrow> tok \<noteq> Opaque [] \<Longrightarrow>
   get_unverified_header tok = Inr h \<Longrightarrow>
   jwt_decode tok (public_pem p) [ALG] AUDIENCE ISSUER REQUIRED LEEWAY_SECONDS now = Inl e \<Longrightarrow>
   api_ping p now nr req =
     failure 401 (case e of ExpiredSignatureError \<Rightarrow> JS ''Token expired''
                   | InvalidAudienceError \<Rightarrow> JS ''aud mismatch''
                   | InvalidIssuerError \<Rightarrow> JS ''iss mismatch''
                   | _ \<Rightarrow> JF ''Invalid Token: '' e)"
  by (cases e) (simp_all add: api_ping_def failure_def with_status_def jsonify_def)

lemma decode_issued:
  assumes "now \<le> now'" "now' \<le> now + 30"
  shows "jwt_decode (fst (issue_jwt_for_uid p now jti uid)) (public_pem p) [ALG] AUDIENCE ISSUER
           REQUIRED LEEWAY_SECONDS now' = Inr (issue_claims now jti uid)"
proof -
  have b: "now - 1 < real_of_int (py_int now)" "real_of_int (py_int now) < now + 1"
    using py_int_bounds [of now] by simp_all
  have v: "validate_claims (issue_claims now jti uid) REQUIRED AUDIENCE ISSUER LEEWAY_SECONDS now' = Inr ()"
    using assms b
    by (simp add: validate_claims_def issue_claims_def REQUIRED_def validate_iat_def
        validate_nbf_def validate_exp_def validate_iss_def validate_aud_def and_then_def
        raise_if_def LEEWAY_SECONDS_def AUDIENCE_def ISSUER_def Let_def)
  have s: "verify_signature h (Claims c) (RsaSig ALG (jwk_n (PRIV_JWK p)) h (Claims c)) (public_pem p) [ALG] = Inr ()"
    if "map_of h ''alg'' = Some (JStr ALG)" for h c
    using that
    by (simp add: verify_signature_def alg_verify_def public_pem_def ALG_def
        supported_algorithms_def rsa_algorithms_def)
  show ?thesis
    by (simp add: issue_jwt_for_uid_claims jwt_encode_def private_pem_def Let_def jwt_decode_Jws s v
        decode_payload_def and_then_def)
qed

























section \<open>The issuer's claims\<close>

text \<open>
  C2. Every token that \<open>issue_jwt_for_uid\<close> returns carries claims with integer
  \<open>iat\<close>, \<open>nbf\<close> and \<open>exp\<close> such that \<open>exp - iat = 30\<close> and \<open>nbf \<le> iat\<close>, for every
  subject, clock value, token id and process.
\<close>

theorem issued_token_window:
  "\<exists>c iat nbf exp'.
     claims_of (fst (issue_jwt_for_uid p now jti_hex uid)) = Some c
     \<and> map_of c ''iat'' = Some (JInt iat)
     \<and> map_of c ''nbf'' = Some (JInt nbf)
     \<and> map_of c ''exp'' = Some (JInt exp')
     \<and> exp' - iat = 30 \<and> nbf \<le> iat
     \<and> snd (issue_jwt_for_uid p now jti_hex uid) = exp'"
  by (simp add: issue_jwt_for_uid_def issue_claims_def jwt_encode_def private_pem_def
      claims_of_def LEEWAY_SECONDS_def Let_def)

section \<open>The issue route\<close>

text \<open>
  C6. An issue request whose \<open>uid\<close> field is absent, empty or made of whitespace only
  gets the response \<open>("UID is required", 400)\<close>, which carries no cookie directive; the
  response does not depend on the clock or on the token id, the inputs of the issuer.
\<close>

theorem issue_empty_uid_rejected:
  "form req ''uid'' = None \<or> (\<exists>v. form req ''uid'' = Some v \<and> (\<forall>c\<in>set v. is_space c)) \<Longrightarrow>
   issue p now jti_hex req =
     \<lparr>status = 400, content = Text ''UID is required'', directives = [], headers = []\<rparr>"
  by (auto simp: issue_def strip_all_space strip_Nil)

theorem issue_empty_uid_rejected_witness:
  "issue \<lparr>PRIV_JWK = \<lparr>jwk_n = 7, jwk_kid = None, jwk_use = None, jwk_alg = None\<rparr>, KID = ''k1''\<rparr>
     1000 ''ab'' \<lparr>form = [''uid'' \<mapsto> ''  ''], cookies = Map.empty\<rparr> =
     \<lparr>status = 400, content = Text ''UID is required'', directives = [], headers = []\<rparr>"
  by (rule issue_empty_uid_rejected) (simp add: is_space_def)

text \<open>
  C10. When the submitted \<open>uid\<close> has whitespace around a non-empty core, the token that
  the issue route stores in the session cookie has the trimmed \<open>uid\<close> as its \<open>sub\<close> claim,
  and not the submitted text.
\<close>

theorem issue_subject_is_trimmed:
  "form req ''uid'' = Some raw \<Longrightarrow> strip raw \<noteq> [] \<Longrightarrow> raw \<noteq> strip raw \<Longrightarrow>
   \<exists>tok c. session_token (issue p now jti_hex req) = Some tok
     \<and> claims_of tok = Some c
     \<and> map_of c ''sub'' = Some (JStr (strip raw))
     \<and> map_of c ''sub'' \<noteq> Some (JStr raw)"
  by (simp add: issue_def issue_jwt_for_uid_def issue_claims_def jwt_encode_def private_pem_def
      claims_of_def session_token_def set_session_def redirect_def Let_def COOKIE_NAME_def
      COOKIE_EXP_def)

theorem issue_subject_is_trimmed_witness:
  "\<exists>tok c. session_token
       (issue \<lparr>PRIV_JWK = \<lparr>jwk_n = 7, jwk_kid = None, jwk_use = None, jwk_alg = None\<rparr>, KID = ''k1''\<rparr>
          1000 ''ab'' \<lparr>form = [''uid'' \<mapsto> '' bob ''], cookies = Map.empty\<rparr>) = Some tok
     \<and> claims_of tok = Some c
     \<and> map_of c ''sub'' = Some (JStr ''bob'')
     \<and> map_of c ''sub'' \<noteq> Some (JStr '' bob '')"
  using issue_subject_is_trimmed
    [of "\<lparr>form = [''uid'' \<mapsto> '' bob ''], cookies = Map.empty\<rparr>" "'' bob ''"
        "\<lparr>PRIV_JWK = \<lparr>jwk_n = 7, jwk_kid = None, jwk_use = None, jwk_alg = None\<rparr>, KID = ''k1''\<rparr>"
        1000 "''ab''"]
  by (simp add: strip_def is_space_def)

text \<open>
  C9. Two calls of \<open>issue_jwt_for_uid\<close> that draw different values from
  \<open>uuid.uuid4().hex\<close> return tokens with different \<open>jti\<close> claims, also for the same
  subject and whatever the two clock values are.
\<close>

theorem successive_issue_fresh_jti:
  "j1 \<noteq> j2 \<Longrightarrow>
   \<exists>c1 c2. claims_of (fst (issue_jwt_for_uid p t1 j1 uid)) = Some c1
     \<and> claims_of (fst (issue_jwt_for_uid p t2 j2 uid)) = Some c2
     \<and> map_of c1 ''jti'' = Some (JStr j1)
     \<and> map_of c2 ''jti'' = Some (JStr j2)
     \<and> map_of c1 ''jti'' \<noteq> map_of c2 ''jti''"
  by (simp add: issue_jwt_for_uid_def issue_claims_def jwt_encode_def private_pem_def
      claims_of_def Let_def)

theorem successive_issue_fresh_jti_witness:
  "\<exists>c1 c2.
     claims_of (fst (issue_jwt_for_uid
        \<lparr>PRIV_JWK = \<lparr>jwk_n = 7, jwk_kid = None, jwk_use = None, jwk_alg = None\<rparr>, KID = ''k1''\<rparr>
        1000 ''a1'' ''bob'')) = Some c1
     \<and> claims_of (fst (issue_jwt_for_uid
        \<lparr>PRIV_JWK = \<lparr>jwk_n = 7, jwk_kid = None, jwk_use = None, jwk_alg = None\<rparr>, KID = ''k1''\<rparr>
        1000 ''b2'' ''bob'')) = Some c2
     \<and> map_of c1 ''jti'' = Some (JStr ''a1'')
     \<and> map_of c2 ''jti'' = Some (JStr ''b2'')
     \<and> map_of c1 ''jti'' \<noteq> map_of c2 ''jti''"
  using successive_issue_fresh_jti [of "''a1''" "''b2''"] by simp

section \<open>The key identifier\<close>

text \<open>
  C7. For the process that \<open>load_module\<close> sets up, \<open>KID\<close> is the \<open>kid\<close> of the loaded
  key, or the fresh value when the key has none; the JWK that \<open>jwks\<close> returns has this
  \<open>kid\<close>, and so has the header of every token that \<open>issue_jwt_for_uid\<close> returns. No
  request handler changes the process.
\<close>

theorem kid_agreement:
  "map_of (public_jwk_obj (load_module key fresh)) ''kid'' = Some (JStr (KID (load_module key fresh)))
   \<and> (\<forall>now jti uid. \<exists>h.
         header_of (fst (issue_jwt_for_uid (load_module key fresh) now jti uid)) = Some h
         \<and> map_of h ''kid'' = Some (JStr (KID (load_module key fresh))))
   \<and> KID (load_module key fresh) = (case jwk_kid key of None \<Rightarrow> fresh | Some k \<Rightarrow> k)
   \<and> content (jwks (load_module key fresh)) =
       Json (JO [(''keys'', JA [of_jdict (public_jwk_obj (load_module key fresh))])])"
proof -
  have "content (jwks (load_module key fresh)) =
       Json (JO [(''keys'', JA [of_jdict (public_jwk_obj (load_module key fresh))])])"
    by (simp add: jwks_def jsonify_def Let_def)
  then show ?thesis
    using issued_header_kid [of "load_module key fresh"]
    by (simp add: public_jwk_obj_kid jwk_kid_load_module KID_load_module)
qed

section \<open>The protected call\<close>

text \<open>
  C8. Two requests with the same \<open>session_jwt\<close> cookie get the same response from
  \<open>api_ping\<close> at the same clock values, whatever else differs between them, the
  \<open>jwt_exp\<close> cookie included.
\<close>

theorem ping_ignores_display_cookie:
  "cookies r1 COOKIE_NAME = cookies r2 COOKIE_NAME \<Longrightarrow>
   api_ping p now now_reply r1 = api_ping p now now_reply r2"
  by (simp add: api_ping_def)

theorem ping_ignores_display_cookie_witness:
  "api_ping \<lparr>PRIV_JWK = \<lparr>jwk_n = 7, jwk_kid = None, jwk_use = None, jwk_alg = None\<rparr>, KID = ''k1''\<rparr>
     1000 1000
     \<lparr>form = Map.empty,
      cookies = [''session_jwt'' \<mapsto> Opaque ''abc'', ''jwt_exp'' \<mapsto> Opaque ''1030'']\<rparr> =
   api_ping \<lparr>PRIV_JWK = \<lparr>jwk_n = 7, jwk_kid = None, jwk_use = None, jwk_alg = None\<rparr>, KID = ''k1''\<rparr>
     1000 1000
     \<lparr>form = Map.empty,
      cookies = [''session_jwt'' \<mapsto> Opaque ''abc'', ''jwt_exp'' \<mapsto> Opaque ''99999'']\<rparr>"
  by (rule ping_ignores_display_cookie) (simp add: COOKIE_NAME_def)

text \<open>
  C1. A token that \<open>issue_jwt_for_uid\<close> returns for a valid subject (non-empty after
  trimming), presented in the session cookie at once (at a clock value from the issuing
  instant to 30 seconds later), is accepted by \<open>api_ping\<close>: the response is the success
  response, and its claims have the subject as \<open>sub\<close> and \<open>"JWT API Simulation"\<close> as \<open>iss\<close>
  and as \<open>aud\<close>.
\<close>

theorem issue_then_verify:
  assumes "strip uid \<noteq> []" and "now \<le> now'" and "now' \<le> now + 30"
    and "cookies req COOKIE_NAME = Some (fst (issue_jwt_for_uid p now jti_hex uid))"
  shows "\<exists>h c. api_ping p now' now_reply req = success (py_int now_reply) h c
           \<and> map_of c ''sub'' = Some (JStr uid)
           \<and> map_of c ''iss'' = Some (JStr ''JWT API Simulation'')
           \<and> map_of c ''aud'' = Some (JStr ''JWT API Simulation'')"
proof -
  let ?tok = "fst (issue_jwt_for_uid p now jti_hex uid)"
  obtain h where h: "get_unverified_header ?tok = Inr h" and ne: "?tok \<noteq> Opaque []"
    by (simp add: issue_jwt_for_uid_def jwt_encode_def private_pem_def Let_def
        get_unverified_header_Jws)
  have "api_ping p now' now_reply req = success (py_int now_reply) h (issue_claims now jti_hex uid)"
    using assms(4) ne h decode_issued [OF assms(2,3)] by (rule api_ping_decode_ok)
  moreover have "map_of (issue_claims now jti_hex uid) ''sub'' = Some (JStr uid)"
    and "map_of (issue_claims now jti_hex uid) ''iss'' = Some (JStr ''JWT API Simulation'')"
    and "map_of (issue_claims now jti_hex uid) ''aud'' = Some (JStr ''JWT API Simulation'')"
    by (simp_all add: issue_claims_def Let_def ISSUER_def AUDIENCE_def)
  ultimately show ?thesis by blast
qed

theorem issue_then_verify_witness:
  "\<exists>h c. api_ping \<lparr>PRIV_JWK = \<lparr>jwk_n = 7, jwk_kid = None, jwk_use = None, jwk_alg = None\<rparr>, KID = ''k1''\<rparr>
       1000 1001
       \<lparr>form = Map.empty,
        cookies = [''session_jwt'' \<mapsto>
          fst (issue_jwt_for_uid
            \<lparr>PRIV_JWK = \<lparr>jwk_n = 7, jwk_kid = None, jwk_use = None, jwk_alg = None\<rparr>, KID = ''k1''\<rparr>
            1000 ''ab'' ''user-123'')]\<rparr> = success (py_int 1001) h c
     \<and> map_of c ''sub'' = Some (JStr ''user-123'')
     \<and> map_of c ''iss'' = Some (JStr ''JWT API Simulation'')
     \<and> map_of c ''aud'' = Some (JStr ''JWT API Simulation'')"
  by (rule issue_then_verify) (simp_all add: strip_def is_space_def COOKIE_NAME_def)

text \<open>
  C4. A token whose header declares any algorithm other than \<open>PS512\<close> (\<open>none\<close>
  included, or no algorithm at all) is rejected, whatever its payload and signature
  are: \<open>jwt.decode\<close>, called with the fixed list \<open>[ALG]\<close>, raises
  \<open>InvalidAlgorithmError\<close>, and \<open>api_ping\<close> answers with a failure (400 when the header
  is unreadable, 401 otherwise) that carries no claims.
\<close>

theorem other_algorithm_rejected:
  assumes "cookies req COOKIE_NAME = Some (Jws h b s)"
    and "map_of h ''alg'' \<noteq> Some (JStr ''PS512'')"
  shows "jwt_decode (Jws h b s) (public_pem p) [ALG] AUDIENCE ISSUER REQUIRED LEEWAY_SECONDS now
           = Inl InvalidAlgorithmError
         \<and> api_ping p now now_reply req =
             (case get_unverified_header (Jws h b s) of
                Inl e \<Rightarrow> failure 400 (JF ''Cannot read header: '' e)
              | Inr h' \<Rightarrow> failure 401 (JF ''Invalid Token: '' InvalidAlgorithmError))"
proof -
  have v: "verify_signature h b s (public_pem p) [ALG] = Inl InvalidAlgorithmError"
    using assms(2) by (simp add: verify_signature_def ALG_def split: option.splits jval.splits)
  have d: "jwt_decode (Jws h b s) (public_pem p) [ALG] AUDIENCE ISSUER REQUIRED LEEWAY_SECONDS now
           = Inl InvalidAlgorithmError"
    by (simp add: jwt_decode_Jws v and_then_def)
  show ?thesis
  proof (cases "get_unverified_header (Jws h b s)")
    case (Inl e)
    with assms(1) d show ?thesis by (simp add: api_ping_header)
  next
    case (Inr h')
    with assms(1) d show ?thesis
      using api_ping_decode_fail [OF assms(1) _ Inr d] by simp
  qed
qed

theorem other_algorithm_rejected_witness:
  "api_ping \<lparr>PRIV_JWK = \<lparr>jwk_n = 7, jwk_kid = None, jwk_use = None, jwk_alg = None\<rparr>, KID = ''k1''\<rparr>
     1000 1000
     \<lparr>form = Map.empty,
      cookies = [''session_jwt'' \<mapsto>
        Jws [(''alg'', JStr ''none''), (''typ'', JStr ''JWT'')]
            (Claims [(''iss'', JStr ''JWT API Simulation''), (''aud'', JStr ''JWT API Simulation''),
                     (''sub'', JStr ''admin''), (''iat'', JInt 1000), (''nbf'', JInt 998),
                     (''exp'', JInt 1030)])
            (Noise [])]\<rparr>
   = failure 401 (JF ''Invalid Token: '' InvalidAlgorithmError)"
  using other_algorithm_rejected
    [of "\<lparr>form = Map.empty,
      cookies = [''session_jwt'' \<mapsto>
        Jws [(''alg'', JStr ''none''), (''typ'', JStr ''JWT'')]
            (Claims [(''iss'', JStr ''JWT API Simulation''), (''aud'', JStr ''JWT API Simulation''),
                     (''sub'', JStr ''admin''), (''iat'', JInt 1000), (''nbf'', JInt 998),
                     (''exp'', JInt 1030)])
            (Noise [])]\<rparr>"
        "[(''alg'', JStr ''none''), (''typ'', JStr ''JWT'')]"
        "Claims [(''iss'', JStr ''JWT API Simulation''), (''aud'', JStr ''JWT API Simulation''),
                     (''sub'', JStr ''admin''), (''iat'', JInt 1000), (''nbf'', JInt 998),
                     (''exp'', JInt 1030)]"
        "Noise []"
        "\<lparr>PRIV_JWK = \<lparr>jwk_n = 7, jwk_kid = None, jwk_use = None, jwk_alg = None\<rparr>, KID = ''k1''\<rparr>"
        1000 1000]
  by (simp add: COOKIE_NAME_def get_unverified_header_Jws)

text \<open>
  C5. Every response of \<open>api_ping\<close> is the success response, or
  \<open>{"ok": false, "error": ...}\<close> with status 401, or that body with status 400 and the
  error \<open>"Cannot read header: ..."\<close>. With no session cookie (or an empty one) the
  response is exactly \<open>{"ok": false, "error": "Missing JWT (Cookie)"}\<close> with status 401.
  The status is 400 exactly when a non-empty token is present and
  \<open>jwt.get_unverified_header\<close> raises on it. Whenever the header is readable and
  \<open>jwt.decode\<close> raises, the status is 401, with \<open>"Token expired"\<close>, \<open>"aud mismatch"\<close>,
  \<open>"iss mismatch"\<close> for the three exceptions that have a handler of their own and
  \<open>"Invalid Token: ..."\<close> for every other one (an invalid signature among them).
\<close>

theorem ping_failure_shape:
  "(cookies req COOKIE_NAME = None \<or> cookies req COOKIE_NAME = Some (Opaque []) \<longrightarrow>
      api_ping p now nr req = failure 401 (JS ''Missing JWT (Cookie)''))
   \<and> ((\<exists>h c. api_ping p now nr req = success (py_int nr) h c)
        \<or> (\<exists>e. api_ping p now nr req = failure 401 e)
        \<or> (\<exists>e. api_ping p now nr req = failure 400 (JF ''Cannot read header: '' e)))
   \<and> (status (api_ping p now nr req) = 400 \<longleftrightarrow>
        (\<exists>tok e. cookies req COOKIE_NAME = Some tok \<and> tok \<noteq> Opaque []
                 \<and> get_unverified_header tok = Inl e))
   \<and> (\<forall>tok h e. cookies req COOKIE_NAME = Some tok \<and> tok \<noteq> Opaque []
          \<and> get_unverified_header tok = Inr h
          \<and> jwt_decode tok (public_pem p) [ALG] AUDIENCE ISSUER REQUIRED LEEWAY_SECONDS now = Inl e \<longrightarrow>
          api_ping p now nr req =
            failure 401 (case e of ExpiredSignatureError \<Rightarrow> JS ''Token expired''
                          | InvalidAudienceError \<Rightarrow> JS ''aud mismatch''
                          | InvalidIssuerError \<Rightarrow> JS ''iss mismatch''
                          | _ \<Rightarrow> JF ''Invalid Token: '' e))"
proof -
  let ?R = "api_ping p now nr req"
  have a: "cookies req COOKIE_NAME = None \<or> cookies req COOKIE_NAME = Some (Opaque []) \<longrightarrow>
      ?R = failure 401 (JS ''Missing JWT (Cookie)'')"
    using api_ping_None api_ping_empty by blast
  have d: "\<forall>tok h e. cookies req COOKIE_NAME = Some tok \<and> tok \<noteq> Opaque []
          \<and> get_unverified_header tok = Inr h
          \<and> jwt_decode tok (public_pem p) [ALG] AUDIENCE ISSUER REQUIRED LEEWAY_SECONDS now = Inl e \<longrightarrow>
          ?R = failure 401 (case e of ExpiredSignatureError \<Rightarrow> JS ''Token expired''
                          | InvalidAudienceError \<Rightarrow> JS ''aud mismatch''
                          | InvalidIssuerError \<Rightarrow> JS ''iss mismatch''
                          | _ \<Rightarrow> JF ''Invalid Token: '' e)"
    using api_ping_decode_fail by blast
  consider (missing) "cookies req COOKIE_NAME = None \<or> cookies req COOKIE_NAME = Some (Opaque [])"
    | (unreadable) tok e where "cookies req COOKIE_NAME = Some tok" "tok \<noteq> Opaque []"
        "get_unverified_header tok = Inl e"
    | (rejected) tok h e where "cookies req COOKIE_NAME = Some tok" "tok \<noteq> Opaque []"
        "get_unverified_header tok = Inr h"
        "jwt_decode tok (public_pem p) [ALG] AUDIENCE ISSUER REQUIRED LEEWAY_SECONDS now = Inl e"
    | (accepted) tok h c where "cookies req COOKIE_NAME = Some tok" "tok \<noteq> Opaque []"
        "get_unverified_header tok = Inr h"
        "jwt_decode tok (public_pem p) [ALG] AUDIENCE ISSUER REQUIRED LEEWAY_SECONDS now = Inr c"
  proof (cases "cookies req COOKIE_NAME")
    case None
    then show ?thesis using missing by simp
  next
    case (Some tok)
    show ?thesis
    proof (cases "tok = Opaque []")
      case True
      with Some show ?thesis using missing by simp
    next
      case False
      show ?thesis
      proof (cases "get_unverified_header tok")
        case (Inl e)
        with Some False show ?thesis using unreadable by blast
      next
        case (Inr h)
        show ?thesis
        proof (cases "jwt_decode tok (public_pem p) [ALG] AUDIENCE ISSUER REQUIRED LEEWAY_SECONDS now")
          case (Inl e)
          with Some False Inr show ?thesis using rejected by blast
        next
          case (Inr c)
          with Some False \<open>get_unverified_header tok = Inr h\<close> show ?thesis using accepted by blast
        qed
      qed
    qed
  qed
  then have bc: "((\<exists>h c. ?R = success (py_int nr) h c)
        \<or> (\<exists>e. ?R = failure 401 e)
        \<or> (\<exists>e. ?R = failure 400 (JF ''Cannot read header: '' e)))
   \<and> (status ?R = 400 \<longleftrightarrow>
        (\<exists>tok e. cookies req COOKIE_NAME = Some tok \<and> tok \<noteq> Opaque []
                 \<and> get_unverified_header tok = Inl e))"
  proof cases
    case missing
    then have "?R = failure 401 (JS ''Missing JWT (Cookie)'')" using a by blast
    moreover have "\<not> (\<exists>tok e. cookies req COOKIE_NAME = Some tok \<and> tok \<noteq> Opaque []
                 \<and> get_unverified_header tok = Inl e)"
      using missing by auto
    ultimately show ?thesis by (auto simp: failure_def)
  next
    case unreadable
    then have "?R = failure 400 (JF ''Cannot read header: '' e)" by (rule api_ping_header)
    with unreadable show ?thesis by (auto simp: failure_def)
  next
    case rejected
    then have "\<exists>x. ?R = failure 401 x" using api_ping_decode_fail by blast
    with rejected show ?thesis by (auto simp: failure_def)
  next
    case accepted
    then have "?R = success (py_int nr) h c" by (rule api_ping_decode_ok)
    with accepted show ?thesis by (auto simp: success_def)
  qed
  from a bc d show ?thesis by blast
qed

theorem ping_failure_shape_witness:
  "api_ping \<lparr>PRIV_JWK = \<lparr>jwk_n = 7, jwk_kid = None, jwk_use = None, jwk_alg = None\<rparr>, KID = ''k1''\<rparr> 1000 1000 \<lparr>form = Map.empty, cookies = Map.empty\<rparr>
     = failure 401 (JS ''Missing JWT (Cookie)'')
   \<and> status (api_ping \<lparr>PRIV_JWK = \<lparr>jwk_n = 7, jwk_kid = None, jwk_use = None, jwk_alg = None\<rparr>, KID = ''k1''\<rparr> 1000 1000
        \<lparr>form = Map.empty, cookies = [''session_jwt'' \<mapsto> Opaque ''not.a.token'']\<rparr>) = 400"
  using ping_failure_shape [of "\<lparr>form = Map.empty, cookies = Map.empty\<rparr>" "\<lparr>PRIV_JWK = \<lparr>jwk_n = 7, jwk_kid = None, jwk_use = None, jwk_alg = None\<rparr>, KID = ''k1''\<rparr>" 1000 1000]
    ping_failure_shape [of "\<lparr>form = Map.empty, cookies = [''session_jwt'' \<mapsto> Opaque ''not.a.token'']\<rparr>" "\<lparr>PRIV_JWK = \<lparr>jwk_n = 7, jwk_kid = None, jwk_use = None, jwk_alg = None\<rparr>, KID = ''k1''\<rparr>" 1000 1000]
  by (simp add: COOKIE_NAME_def get_unverified_header_def load_token_def and_then_def)





end
